theory Spec2Isabelle
  imports Main
begin

section \<open>Python strings\<close>

text \<open>
  A Python \<open>str\<close> is modelled as a \<open>string\<close>; a \<open>char\<close> stands for a code point
  below 256. The case mappings are the ASCII ones: the letters \<open>a\<close>..\<open>z\<close> and
  \<open>A\<close>..\<open>Z\<close> are mapped, every other character is left as it is, so that \<open>upper\<close>,
  \<open>lower\<close> and \<open>capitalize\<close> agree with Python on ASCII text only. No property proved
  below depends on which characters they map.
\<close>

definition apos :: char where
  "apos = CHR 0x27"

definition newline :: char where
  "newline = CHR 0x0A"

text \<open>\<open>str(n)\<close> for a number \<open>n\<close>: its decimal digits, with a sign when negative.\<close>

fun str_nat :: "nat \<Rightarrow> string" where
  "str_nat n =
     (if n < 10 then [''0123456789'' ! n]
      else str_nat (n div 10) @ [''0123456789'' ! (n mod 10)])"

definition str_int :: "int \<Rightarrow> string" where
  "str_int i = (if i < 0 then CHR ''-'' # str_nat (nat (- i)) else str_nat (nat i))"

text \<open>\<open>str.isspace\<close> on one character, for the code points below 256.\<close>

definition isspace :: "char \<Rightarrow> bool" where
  "isspace c =
     (let n = (of_char c :: nat)
      in (9 \<le> n \<and> n \<le> 13) \<or> (28 \<le> n \<and> n \<le> 32) \<or> n = 133 \<or> n = 160)"

text \<open>\<open>s.strip()\<close>: leading and trailing whitespace removed.\<close>

definition strip :: "string \<Rightarrow> string" where
  "strip s = rev (dropWhile isspace (rev (dropWhile isspace s)))"

definition lowercase_letters :: string where
  "lowercase_letters = ''abcdefghijklmnopqrstuvwxyz''"

definition uppercase_letters :: string where
  "uppercase_letters = ''ABCDEFGHIJKLMNOPQRSTUVWXYZ''"

definition upper_char :: "char \<Rightarrow> char" where
  "upper_char c =
     (case map_of (zip lowercase_letters uppercase_letters) c of
        Some u \<Rightarrow> u
      | None \<Rightarrow> c)"

definition lower_char :: "char \<Rightarrow> char" where
  "lower_char c =
     (case map_of (zip uppercase_letters lowercase_letters) c of
        Some l \<Rightarrow> l
      | None \<Rightarrow> c)"

definition upper :: "string \<Rightarrow> string" where
  "upper s = map upper_char s"

definition lower :: "string \<Rightarrow> string" where
  "lower s = map lower_char s"

text \<open>\<open>s.capitalize()\<close>: the first character in upper case, the rest in lower case.\<close>

fun capitalize :: "string \<Rightarrow> string" where
  "capitalize [] = []"
| "capitalize (c # cs) = upper_char c # lower cs"

text \<open>
  \<open>s.split(sep)\<close> for a separator of one character: the pieces between the
  separators, so one piece more than there are separators, and \<open>['''']\<close> for the
  empty string.
\<close>

fun split :: "char \<Rightarrow> string \<Rightarrow> string list" where
  "split sep [] = [[]]"
| "split sep (c # cs) =
     (if c = sep then [] # split sep cs
      else (case split sep cs of
              [] \<Rightarrow> [[c]]
            | l # ls \<Rightarrow> (c # l) # ls))"

text \<open>\<open>sep.join(ls)\<close>.\<close>

fun join :: "string \<Rightarrow> string list \<Rightarrow> string" where
  "join sep [] = []"
| "join sep [l] = l"
| "join sep (l # ls) = l @ sep @ join sep ls"


section \<open>The operating system\<close>

text \<open>
  The exceptions that \<open>open\<close>, \<open>read\<close> and \<open>write\<close> raise, as far as the handlers of
  the program tell them apart; each carries its message \<open>str(e)\<close>. \<open>OtherOSError\<close> is an
  \<open>OSError\<close> (\<open>IOError\<close>) that is none of the four subclasses named before it,
  \<open>OtherException\<close> an \<open>Exception\<close> that is no \<open>OSError\<close> and no
  \<open>UnicodeDecodeError\<close>.
\<close>

datatype io_exc =
    FileNotFoundError string
  | PermissionError string
  | UnicodeDecodeError string
  | IsADirectoryError string
  | OtherOSError string
  | OtherException string

fun exc_str :: "io_exc \<Rightarrow> string" where
  "exc_str (FileNotFoundError m) = m"
| "exc_str (PermissionError m) = m"
| "exc_str (UnicodeDecodeError m) = m"
| "exc_str (IsADirectoryError m) = m"
| "exc_str (OtherOSError m) = m"
| "exc_str (OtherException m) = m"

datatype access_mode = R_OK | W_OK

text \<open>
  The calls to the operating system that the program makes. Only \<open>OpenWrite\<close>
  (\<open>open(filename, 'w')\<close> followed by \<open>write(content)\<close>) changes the file system.
\<close>

datatype os_call =
    PathExists string
  | PathIsfile string
  | Access string access_mode
  | OpenRead string
  | OpenWrite string string

fun mutating :: "os_call \<Rightarrow> bool" where
  "mutating (OpenWrite filename content) = True"
| "mutating call = False"

text \<open>
  The operating system is a parameter: what a path is, who may read it and what a write
  does to the file system \<open>'fs\<close> are not decided by the program. A write that fails may
  still have changed the file system (the file is truncated when it is opened).
\<close>

record 'fs os =
  os_exists :: "'fs \<Rightarrow> string \<Rightarrow> bool"
  os_isfile :: "'fs \<Rightarrow> string \<Rightarrow> bool"
  os_access :: "'fs \<Rightarrow> string \<Rightarrow> access_mode \<Rightarrow> bool"
  os_read :: "'fs \<Rightarrow> string \<Rightarrow> io_exc + string"
  os_write :: "'fs \<Rightarrow> string \<Rightarrow> string \<Rightarrow> io_exc option \<times> 'fs"

text \<open>
  The world a program runs in: the file system, the lines still to be read from standard
  input, the lines written to standard output (prompts included), and the calls made to
  the operating system, in order.
\<close>

record 'fs world =
  files :: 'fs
  stdin :: "string list"
  stdout :: "string list"
  calls :: "os_call list"

definition print :: "string \<Rightarrow> 'fs world \<Rightarrow> 'fs world" where
  "print line w = w\<lparr>stdout := stdout w @ [line]\<rparr>"

definition called :: "os_call \<Rightarrow> 'fs world \<Rightarrow> 'fs world" where
  "called c w = w\<lparr>calls := calls w @ [c]\<rparr>"

text \<open>\<open>input(prompt)\<close>: \<open>None\<close> is \<open>EOFError\<close>, raised when standard input is exhausted.\<close>

definition input :: "string \<Rightarrow> 'fs world \<Rightarrow> string option \<times> 'fs world" where
  "input prompt w =
     (case stdin w of
        [] \<Rightarrow> (None, print prompt w)
      | line # rest \<Rightarrow> (Some line, (print prompt w)\<lparr>stdin := rest\<rparr>))"

text \<open>The text \<open>'{s}'\<close> of an f-string.\<close>

definition quoted :: "string \<Rightarrow> string" where
  "quoted s = apos # s @ [apos]"

text \<open>\<open>os.path.dirname\<close> of \<open>posixpath\<close>.\<close>

definition dirname :: "string \<Rightarrow> string" where
  "dirname p =
     (let head = rev (dropWhile (\<lambda>c. c \<noteq> CHR ''/'') (rev p))
      in if head \<noteq> [] \<and> head \<noteq> replicate (length head) (CHR ''/'')
         then rev (dropWhile (\<lambda>c. c = CHR ''/'') (rev head))
         else head)"


subsection \<open>Example operating systems\<close>

text \<open>
  A small operating system to run the definitions on: the file system is the list of the
  files with their contents, and every file is readable and writable. In the second one
  every write is refused.
\<close>

definition demo_os :: "(string \<times> string) list os" where
  "demo_os =
     \<lparr>os_exists = (\<lambda>fs name. map_of fs name \<noteq> None \<or> name = ''.''),
      os_isfile = (\<lambda>fs name. map_of fs name \<noteq> None),
      os_access = (\<lambda>fs name mode. map_of fs name \<noteq> None \<or> name = ''.''),
      os_read = (\<lambda>fs name. case map_of fs name of
                                None \<Rightarrow> Inl (FileNotFoundError ''No such file or directory'')
                              | Some content \<Rightarrow> Inr content),
      os_write = (\<lambda>fs name content. (None, (name, content) # fs))\<rparr>"

definition demo_world :: "(string \<times> string) list world" where
  "demo_world =
     \<lparr>files = [(''in.txt'', ''hello'')], stdin = [], stdout = [], calls = []\<rparr>"

definition readonly_os :: "(string \<times> string) list os" where
  "readonly_os =
     demo_os\<lparr>os_write := (\<lambda>fs name content. (Some (PermissionError ''Permission denied''), fs))\<rparr>"


section \<open>Error\_handling.py\<close>

subsection \<open>validate\_filename\<close>

text \<open>
  \<^verbatim>\<open>
  def validate_filename(filename):
      if not filename.strip():
          print("Error: Filename cannot be empty.")
          return False
      invalid_chars = ['<', '>', ':', '"', '/', '\\', '|', '?', '*']
      for char in invalid_chars:
          if char in filename:
              print(f"Error: Filename contains invalid character '{char}'.")
              return False
      return True
  \<close>
  The model returns the result together with the lines printed.
\<close>

definition invalid_chars :: "char list" where
  "invalid_chars =
     [CHR ''<'', CHR ''>'', CHR '':'', CHR 0x22, CHR ''/'', CHR 0x5C, CHR ''|'', CHR ''?'',
      CHR ''*'']"

text \<open>The loop over \<open>invalid_chars\<close>: the first of them that occurs in the name.\<close>

fun first_invalid :: "char list \<Rightarrow> string \<Rightarrow> char option" where
  "first_invalid [] filename = None"
| "first_invalid (char # chars) filename =
     (if char \<in> set filename then Some char else first_invalid chars filename)"

definition invalid_char_message :: "char \<Rightarrow> string" where
  "invalid_char_message char =
     ''Error: Filename contains invalid character '' @ quoted [char] @ ''.''"

definition validate_filename :: "string \<Rightarrow> bool \<times> string list" where
  "validate_filename filename =
     (if strip filename = [] then (False, [''Error: Filename cannot be empty.''])
      else (case first_invalid invalid_chars filename of
              Some char \<Rightarrow> (False, [invalid_char_message char])
            | None \<Rightarrow> (True, [])))"

subsection \<open>check\_file\_access\<close>

text \<open>
  \<^verbatim>\<open>
  def check_file_access(filename, mode='r'):
      if mode == 'r':
          if not os.path.exists(filename):
              return False, f"The file '{filename}' does not exist."
          if not os.path.isfile(filename):
              return False, f"'{filename}' is not a file."
          if not os.access(filename, os.R_OK):
              return False, f"You don't have permission to read '{filename}'."
      elif mode == 'w':
          if os.path.exists(filename):
              if not os.access(filename, os.W_OK):
                  return False, f"You don't have permission to write to '{filename}'."
          else:
              directory = os.path.dirname(filename) or '.'
              if not os.access(directory, os.W_OK):
                  return False, f"You don't have permission to write to the directory containing '{filename}'."
      return True, "File access check passed."
  \<close>
\<close>

definition msg_not_exist :: "string \<Rightarrow> string" where
  "msg_not_exist filename = ''The file '' @ quoted filename @ '' does not exist.''"

definition msg_not_file :: "string \<Rightarrow> string" where
  "msg_not_file filename = quoted filename @ '' is not a file.''"

definition msg_no_read :: "string \<Rightarrow> string" where
  "msg_no_read filename =
     ''You don'' @ [apos] @ ''t have permission to read '' @ quoted filename @ ''.''"

definition msg_no_write :: "string \<Rightarrow> string" where
  "msg_no_write filename =
     ''You don'' @ [apos] @ ''t have permission to write to '' @ quoted filename @ ''.''"

definition msg_no_write_dir :: "string \<Rightarrow> string" where
  "msg_no_write_dir filename =
     ''You don'' @ [apos] @ ''t have permission to write to the directory containing ''
       @ quoted filename @ ''.''"

definition msg_passed :: string where
  "msg_passed = ''File access check passed.''"

definition check_file_access ::
  "'fs os \<Rightarrow> string \<Rightarrow> string \<Rightarrow> 'fs world \<Rightarrow> (bool \<times> string) \<times> 'fs world" where
  "check_file_access os filename mode w =
     (if mode = ''r'' then
        (let w1 = called (PathExists filename) w in
         if \<not> os_exists os (files w) filename then ((False, msg_not_exist filename), w1)
         else
           (let w2 = called (PathIsfile filename) w1 in
            if \<not> os_isfile os (files w) filename then ((False, msg_not_file filename), w2)
            else
              (let w3 = called (Access filename R_OK) w2 in
               if \<not> os_access os (files w) filename R_OK
               then ((False, msg_no_read filename), w3)
               else ((True, msg_passed), w3))))
      else if mode = ''w'' then
        (let w1 = called (PathExists filename) w in
         if os_exists os (files w) filename then
           (let w2 = called (Access filename W_OK) w1 in
            if \<not> os_access os (files w) filename W_OK
            then ((False, msg_no_write filename), w2)
            else ((True, msg_passed), w2))
         else
           (let directory = (if dirname filename \<noteq> [] then dirname filename else ''.'');
                w2 = called (Access directory W_OK) w1
            in if \<not> os_access os (files w) directory W_OK
               then ((False, msg_no_write_dir filename), w2)
               else ((True, msg_passed), w2)))
      else ((True, msg_passed), w))"

text \<open>The call with the default mode, \<open>check_file_access(filename)\<close>.\<close>

definition check_file_access_default ::
  "'fs os \<Rightarrow> string \<Rightarrow> 'fs world \<Rightarrow> (bool \<times> string) \<times> 'fs world" where
  "check_file_access_default os filename w = check_file_access os filename ''r'' w"


subsection \<open>read\_file\_with\_retries\<close>

text \<open>
  \<^verbatim>\<open>
  def read_file_with_retries(filename, max_retries=3, retry_delay=1):
      attempts = 0
      last_error = None
      while attempts < max_retries:
          try:
              with open(filename, 'r', encoding='utf-8') as file:
                  return file.read()
          except FileNotFoundError:
              raise FileReadError(f"The file '{filename}' was not found.")
          except PermissionError:
              raise FileReadError(f"Permission denied when trying to read '{filename}'.")
          except UnicodeDecodeError:
              raise FileReadError(f"The file '{filename}' contains characters that cannot be decoded. Try a different encoding.")
          except IsADirectoryError:
              raise FileReadError(f"'{filename}' is a directory, not a file.")
          except (IOError, OSError) as e:
              last_error = str(e)
              attempts += 1
              print(f"Error reading file (attempt {attempts}/{max_retries}): {last_error}")
              if attempts < max_retries:
                  print(f"Retrying in {retry_delay} second(s)...")
                  time.sleep(retry_delay)
                  continue
              else:
                  raise FileReadError(f"Failed to read '{filename}' after {max_retries} attempts. Last error: {last_error}")
          except Exception as e:
              raise FileReadError(f"Unexpected error reading '{filename}': {str(e)}")
  \<close>
  The outcome of \<open>open\<close> and \<open>read\<close> may change from one call to the next, so the
  environment is the sequence \<open>open_read\<close> of these outcomes: \<open>open_read k\<close> is what
  the call number \<open>k\<close> (from 0) gives. The function ends by returning a value (the
  content, or \<open>None\<close> when the loop is left without a \<open>return\<close>) or by raising:
  \<open>FileReadError\<close> from the handlers, or what \<open>time.sleep\<close> raises when it refuses
  the delay, which is raised inside the handler, where no \<open>except\<close> clause of this
  \<open>try\<close> catches it. The state records the two variables of the loop, the number of
  calls of \<open>open\<close>, the lines printed and the delays slept. The delay is an \<open>int\<close>,
  as the docstring of the function has it.
\<close>

datatype raised = FileReadError string | ValueError string | OverflowError

datatype pyval = Str string | NoneVal

record retry_state =
  attempts :: int
  last_error :: "string option"
  opened :: nat
  printed :: "string list"
  slept :: "int list"

definition msg_not_found :: "string \<Rightarrow> string" where
  "msg_not_found filename = ''The file '' @ quoted filename @ '' was not found.''"

definition msg_permission :: "string \<Rightarrow> string" where
  "msg_permission filename =
     ''Permission denied when trying to read '' @ quoted filename @ ''.''"

definition msg_decode :: "string \<Rightarrow> string" where
  "msg_decode filename =
     ''The file '' @ quoted filename
       @ '' contains characters that cannot be decoded. Try a different encoding.''"

definition msg_directory :: "string \<Rightarrow> string" where
  "msg_directory filename = quoted filename @ '' is a directory, not a file.''"

definition msg_attempt :: "int \<Rightarrow> int \<Rightarrow> string \<Rightarrow> string" where
  "msg_attempt n max_retries cause =
     ''Error reading file (attempt '' @ str_int n @ ''/'' @ str_int max_retries
       @ ''): '' @ cause"

definition msg_retrying :: "int \<Rightarrow> string" where
  "msg_retrying retry_delay = ''Retrying in '' @ str_int retry_delay @ '' second(s)...''"

definition msg_exhausted :: "string \<Rightarrow> int \<Rightarrow> string \<Rightarrow> string" where
  "msg_exhausted filename max_retries cause =
     ''Failed to read '' @ quoted filename @ '' after '' @ str_int max_retries
       @ '' attempts. Last error: '' @ cause"

definition msg_unexpected :: "string \<Rightarrow> string \<Rightarrow> string" where
  "msg_unexpected filename e = ''Unexpected error reading '' @ quoted filename @ '': '' @ e"

text \<open>
  \<open>time.sleep(secs)\<close> for an \<open>int\<close>: the delay is first converted to nanoseconds in 64
  bits, which raises \<open>OverflowError\<close> beyond 9223372036 seconds either way (its message
  depends on the version of Python and is left out); a negative delay is then refused
  with \<open>ValueError\<close>; otherwise the call blocks and returns. \<open>None\<close> is the normal
  return.
\<close>

definition time_sleep :: "int \<Rightarrow> raised option" where
  "time_sleep secs =
     (if secs < - 9223372036 \<or> 9223372036 < secs then Some OverflowError
      else if secs < 0 then Some (ValueError ''sleep length must be non-negative'')
      else None)"

text \<open>The loop, from a state of its variables.\<close>

function read_loop ::
  "(nat \<Rightarrow> io_exc + string) \<Rightarrow> string \<Rightarrow> int \<Rightarrow> int \<Rightarrow> retry_state
     \<Rightarrow> (raised + pyval) \<times> retry_state" where
  "read_loop open_read filename max_retries retry_delay st =
     (if attempts st < max_retries then
        (let st1 = st\<lparr>opened := Suc (opened st)\<rparr> in
         case open_read (opened st) of
           Inr content \<Rightarrow> (Inr (Str content), st1)
         | Inl (FileNotFoundError m) \<Rightarrow> (Inl (FileReadError (msg_not_found filename)), st1)
         | Inl (PermissionError m) \<Rightarrow> (Inl (FileReadError (msg_permission filename)), st1)
         | Inl (UnicodeDecodeError m) \<Rightarrow> (Inl (FileReadError (msg_decode filename)), st1)
         | Inl (IsADirectoryError m) \<Rightarrow> (Inl (FileReadError (msg_directory filename)), st1)
         | Inl (OtherOSError m) \<Rightarrow>
             (let st2 = st1\<lparr>last_error := Some m, attempts := attempts st1 + 1\<rparr>;
                  st3 = st2\<lparr>printed := printed st2 @ [msg_attempt (attempts st2) max_retries m]\<rparr>
              in if attempts st3 < max_retries then
                   (let st4 = st3\<lparr>printed := printed st3 @ [msg_retrying retry_delay]\<rparr> in
                    case time_sleep retry_delay of
                      Some e \<Rightarrow> (Inl e, st4)
                    | None \<Rightarrow>
                        read_loop open_read filename max_retries retry_delay
                          (st4\<lparr>slept := slept st4 @ [retry_delay]\<rparr>))
                 else (Inl (FileReadError (msg_exhausted filename max_retries m)), st3))
         | Inl (OtherException m) \<Rightarrow>
             (Inl (FileReadError (msg_unexpected filename m)), st1))
      else (Inr NoneVal, st))"
  by pat_completeness auto
termination
  by (relation "measure (\<lambda>(open_read, filename, max_retries, retry_delay, st).
        nat (max_retries - attempts st))") auto

declare read_loop.simps [simp del]

definition read_file_with_retries ::
  "(nat \<Rightarrow> io_exc + string) \<Rightarrow> string \<Rightarrow> int \<Rightarrow> int \<Rightarrow> (raised + pyval) \<times> retry_state" where
  "read_file_with_retries open_read filename max_retries retry_delay =
     read_loop open_read filename max_retries retry_delay
       \<lparr>attempts = 0, last_error = None, opened = 0, printed = [], slept = []\<rparr>"



definition always_busy :: "nat \<Rightarrow> io_exc + string" where
  "always_busy k = Inl (OtherOSError ''busy'')"



section \<open>Read\_write.py\<close>

subsection \<open>read\_file\<close>

text \<open>
  \<^verbatim>\<open>
  def read_file(filename):
      try:
          with open(filename, 'r', encoding='utf-8') as file:
              return file.read()
      except FileNotFoundError:
          print(f"Error: The file '{filename}' was not found.")
          return None
      except PermissionError:
          print(f"Error: You don't have permission to read '{filename}'.")
          return None
      except Exception as e:
          print(f"Unexpected error reading '{filename}': {str(e)}")
          return None
  \<close>
\<close>

definition read_file :: "'fs os \<Rightarrow> string \<Rightarrow> 'fs world \<Rightarrow> string option \<times> 'fs world" where
  "read_file os filename w =
     (let w1 = called (OpenRead filename) w in
      case os_read os (files w) filename of
        Inr content \<Rightarrow> (Some content, w1)
      | Inl (FileNotFoundError m) \<Rightarrow>
          (None, print (''Error: The file '' @ quoted filename @ '' was not found.'') w1)
      | Inl (PermissionError m) \<Rightarrow>
          (None, print (''Error: You don'' @ [apos] @ ''t have permission to read ''
                          @ quoted filename @ ''.'') w1)
      | Inl e \<Rightarrow>
          (None, print (''Unexpected error reading '' @ quoted filename @ '': '' @ exc_str e)
                   w1))"

subsection \<open>write\_file\<close>

text \<open>
  \<^verbatim>\<open>
  def write_file(filename, content):
      try:
          with open(filename, 'w', encoding='utf-8') as file:
              file.write(content)
          return True
      except PermissionError:
          print(f"Error: You don't have permission to write to '{filename}'.")
          return False
      except Exception as e:
          print(f"Unexpected error writing to '{filename}': {str(e)}")
          return False
  \<close>
\<close>

definition msg_write_permission :: "string \<Rightarrow> string" where
  "msg_write_permission filename =
     ''Error: You don'' @ [apos] @ ''t have permission to write to '' @ quoted filename @ ''.''"

definition msg_write_unexpected :: "string \<Rightarrow> string \<Rightarrow> string" where
  "msg_write_unexpected filename e =
     ''Unexpected error writing to '' @ quoted filename @ '': '' @ e"

definition write_file :: "'fs os \<Rightarrow> string \<Rightarrow> string \<Rightarrow> 'fs world \<Rightarrow> bool \<times> 'fs world" where
  "write_file os filename content w =
     (let (raised, fs') = os_write os (files w) filename content;
          w1 = (called (OpenWrite filename content) w)\<lparr>files := fs'\<rparr>
      in case raised of
           None \<Rightarrow> (True, w1)
         | Some (PermissionError m) \<Rightarrow> (False, print (msg_write_permission filename) w1)
         | Some e \<Rightarrow> (False, print (msg_write_unexpected filename (exc_str e)) w1))"

subsection \<open>modify\_content\<close>

text \<open>
  \<^verbatim>\<open>
  def modify_content(content, modification_type="uppercase"):
      if not content:
          return ""
      if modification_type == "uppercase":
          return content.upper()
      elif modification_type == "lowercase":
          return content.lower()
      elif modification_type == "capitalize_lines":
          return "\n".join([line.capitalize() for line in content.split("\n")])
      elif modification_type == "reverse_lines":
          return "\n".join([line for line in content.split("\n")][::-1])
      else:
          return content.upper()
  \<close>
\<close>

definition modify_content :: "string \<Rightarrow> string \<Rightarrow> string" where
  "modify_content content modification_type =
     (if content = [] then []
      else if modification_type = ''uppercase'' then upper content
      else if modification_type = ''lowercase'' then lower content
      else if modification_type = ''capitalize_lines''
        then join [newline] (map capitalize (split newline content))
      else if modification_type = ''reverse_lines''
        then join [newline] (rev (map (\<lambda>line. line) (split newline content)))
      else upper content)"

text \<open>The call with the default argument, \<open>modify_content(content)\<close>.\<close>

definition modify_content_default :: "string \<Rightarrow> string" where
  "modify_content_default content = modify_content content ''uppercase''"


subsection \<open>get\_modification\_choice\<close>

text \<open>
  \<^verbatim>\<open>
  def get_modification_choice():
      print("\nChoose a modification type:")
      print("1. Convert to UPPERCASE")
      print("2. Convert to lowercase")
      print("3. Capitalize each line")
      print("4. Reverse the order of lines")
      choice = input("Enter your choice (1-4): ")
      options = {"1": "uppercase", "2": "lowercase",
                 "3": "capitalize_lines", "4": "reverse_lines"}
      return options.get(choice, "uppercase")
  \<close>
\<close>

definition options :: "(string \<times> string) list" where
  "options =
     [(''1'', ''uppercase''), (''2'', ''lowercase''), (''3'', ''capitalize_lines''),
      (''4'', ''reverse_lines'')]"

definition get_modification_choice :: "'fs world \<Rightarrow> string option \<times> 'fs world" where
  "get_modification_choice w =
     (let w1 = print (newline # ''Choose a modification type:'') w;
          w2 = print ''1. Convert to UPPERCASE'' w1;
          w3 = print ''2. Convert to lowercase'' w2;
          w4 = print ''3. Capitalize each line'' w3;
          w5 = print ''4. Reverse the order of lines'' w4
      in case input ''Enter your choice (1-4): '' w5 of
           (None, w6) \<Rightarrow> (None, w6)
         | (Some choice, w6) \<Rightarrow>
             (Some (case map_of options choice of Some kind \<Rightarrow> kind | None \<Rightarrow> ''uppercase''),
              w6))"

subsection \<open>main\<close>

text \<open>
  \<^verbatim>\<open>
  def main():
      print("=== File Read & Write Challenge ===")
      input_filename = input("Enter the name of the file to read: ")
      content = read_file(input_filename)
      if content is None:
          return
      mod_type = get_modification_choice()
      modified_content = modify_content(content, mod_type)
      output_filename = input("Enter the name of the file to write the modified content to: ")
      if os.path.exists(output_filename):
          overwrite = input(f"File '{output_filename}' already exists. Overwrite? (y/n): ")
          if overwrite.lower() != 'y':
              print("Operation cancelled.")
              return
      if write_file(output_filename, modified_content):
          print(f"Successfully wrote modified content to '{output_filename}'.")
          print(f"Modified {len(content)} characters using '{mod_type}' modification.")
  \<close>
  The program ends by returning or with the \<open>EOFError\<close> of an \<open>input\<close> that finds
  standard input exhausted.
\<close>

datatype ending = Returned | EOFError

text \<open>The last statement of \<open>main\<close>, reached on two paths.\<close>

definition write_and_report ::
  "'fs os \<Rightarrow> string \<Rightarrow> string \<Rightarrow> string \<Rightarrow> string \<Rightarrow> 'fs world \<Rightarrow> ending \<times> 'fs world" where
  "write_and_report os output_filename modified_content content mod_type w =
     (case write_file os output_filename modified_content w of
        (True, w1) \<Rightarrow>
          (Returned,
           print (''Modified '' @ str_nat (length content) @ '' characters using ''
                    @ quoted mod_type @ '' modification.'')
             (print (''Successfully wrote modified content to '' @ quoted output_filename
                       @ ''.'') w1))
      | (False, w1) \<Rightarrow> (Returned, w1))"

definition main :: "'fs os \<Rightarrow> 'fs world \<Rightarrow> ending \<times> 'fs world" where
  "main os w =
     (let w1 = print ''=== File Read & Write Challenge ==='' w in
      case input ''Enter the name of the file to read: '' w1 of
        (None, w2) \<Rightarrow> (EOFError, w2)
      | (Some input_filename, w2) \<Rightarrow>
     (case read_file os input_filename w2 of
        (None, w3) \<Rightarrow> (Returned, w3)
      | (Some content, w3) \<Rightarrow>
     (case get_modification_choice w3 of
        (None, w4) \<Rightarrow> (EOFError, w4)
      | (Some mod_type, w4) \<Rightarrow>
     (let modified_content = modify_content content mod_type in
      case input ''Enter the name of the file to write the modified content to: '' w4 of
        (None, w5) \<Rightarrow> (EOFError, w5)
      | (Some output_filename, w5) \<Rightarrow>
     (let w6 = called (PathExists output_filename) w5 in
      if os_exists os (files w5) output_filename then
        (case input (''File '' @ quoted output_filename @ '' already exists. Overwrite? (y/n): '')
                w6 of
           (None, w7) \<Rightarrow> (EOFError, w7)
         | (Some overwrite, w7) \<Rightarrow>
             if lower overwrite \<noteq> ''y'' then (Returned, print ''Operation cancelled.'' w7)
             else write_and_report os output_filename modified_content content mod_type w7)
      else write_and_report os output_filename modified_content content mod_type w6)))))"


section \<open>Properties of the string operations\<close>

lemma split_not_Nil: "split sep s \<noteq> []"
  by (induction s) (auto split: list.splits)

lemma split_no_sep: "l \<in> set (split sep s) \<Longrightarrow> sep \<notin> set l"
proof (induction s arbitrary: l)
  case Nil
  then show ?case by simp
next
  case (Cons c cs)
  show ?case
  proof (cases "c = sep")
    case True
    with Cons show ?thesis by auto
  next
    case False
    obtain k ks where ks: "split sep cs = k # ks"
      using split_not_Nil [of sep cs] by (cases "split sep cs") auto
    from Cons.prems False ks have "l = c # k \<or> l \<in> set ks" by simp
    then show ?thesis
    proof
      assume "l = c # k"
      moreover have "sep \<notin> set k" using Cons.IH [of k] ks by simp
      ultimately show ?thesis using False by auto
    next
      assume "l \<in> set ks"
      then show ?thesis using Cons.IH [of l] ks by simp
    qed
  qed
qed

lemma join_Cons: "ls \<noteq> [] \<Longrightarrow> join sep (l # ls) = l @ sep @ join sep ls"
  by (cases ls) auto

lemma join_split: "join [sep] (split sep s) = s"
proof (induction s)
  case Nil
  then show ?case by simp
next
  case (Cons c cs)
  obtain k ks where ks: "split sep cs = k # ks"
    using split_not_Nil [of sep cs] by (cases "split sep cs") auto
  show ?case
  proof (cases "c = sep")
    case True
    then show ?thesis using Cons.IH split_not_Nil [of sep cs] by (simp add: join_Cons)
  next
    case False
    then show ?thesis using Cons.IH ks by (cases ks) auto
  qed
qed

lemma split_append_no_sep:
  "sep \<notin> set l \<Longrightarrow> split sep (l @ s) = (l @ hd (split sep s)) # tl (split sep s)"
proof (induction l)
  case Nil
  then show ?case using split_not_Nil [of sep s] by simp
next
  case (Cons c cs)
  then show ?case by auto
qed

lemma split_join:
  "ls \<noteq> [] \<Longrightarrow> (\<And>l. l \<in> set ls \<Longrightarrow> sep \<notin> set l) \<Longrightarrow> split sep (join [sep] ls) = ls"
proof (induction ls)
  case Nil
  then show ?case by simp
next
  case (Cons l ls)
  then have l: "sep \<notin> set l" by simp
  show ?case
  proof (cases ls)
    case Nil
    then show ?thesis using split_append_no_sep [OF l, of "[]"] by simp
  next
    case (Cons k ks)
    then have "split sep (join [sep] ls) = ls"
      using Cons.IH Cons.prems(2) by simp
    then show ?thesis
      using split_append_no_sep [OF l, of "sep # join [sep] ls"] Cons by simp
  qed
qed

lemma strip_empty_iff: "strip s = [] \<longleftrightarrow> (\<forall>c\<in>set s. isspace c)"
proof
  assume e: "strip s = []"
  then have all: "\<forall>c\<in>set (dropWhile isspace s). isspace c"
    by (simp add: strip_def dropWhile_eq_Nil_conv)
  have "dropWhile isspace s = []"
  proof (rule ccontr)
    assume ne: "dropWhile isspace s \<noteq> []"
    then have "\<not> isspace (hd (dropWhile isspace s))" by (rule hd_dropWhile)
    moreover have "hd (dropWhile isspace s) \<in> set (dropWhile isspace s)" using ne by simp
    ultimately show False using all by blast
  qed
  then show "\<forall>c\<in>set s. isspace c" by (simp add: dropWhile_eq_Nil_conv)
next
  assume "\<forall>c\<in>set s. isspace c"
  then show "strip s = []" by (auto simp add: strip_def dest: set_dropWhileD)
qed

lemma invalid_chars_not_space: "c \<in> set invalid_chars \<Longrightarrow> \<not> isspace c"
  by (auto simp add: invalid_chars_def isspace_def)

lemma first_invalid_None: "first_invalid cs filename = None \<longleftrightarrow> set cs \<inter> set filename = {}"
  by (induction cs) auto

lemma first_invalid_Some:
  "first_invalid cs filename = Some c \<Longrightarrow>
   \<exists>before after. cs = before @ c # after \<and> c \<in> set filename \<and> set before \<inter> set filename = {}"
proof (induction cs)
  case Nil
  then show ?case by simp
next
  case (Cons x xs)
  show ?case
  proof (cases "x \<in> set filename")
    case True
    with Cons.prems have "x = c" by simp
    with True have "x # xs = [] @ c # xs \<and> c \<in> set filename \<and> set [] \<inter> set filename = {}"
      by simp
    then show ?thesis by blast
  next
    case False
    with Cons obtain before after where
      "xs = before @ c # after" "c \<in> set filename" "set before \<inter> set filename = {}"
      by auto
    with False have "x # xs = (x # before) @ c # after \<and> c \<in> set filename
        \<and> set (x # before) \<inter> set filename = {}"
      by simp
    then show ?thesis by blast
  qed
qed

lemma dirname_no_slash: "CHR ''/'' \<notin> set p \<Longrightarrow> dirname p = []"
proof -
  assume "CHR ''/'' \<notin> set p"
  then have "dropWhile (\<lambda>c. c \<noteq> CHR ''/'') (rev p) = []"
    by auto
  then show ?thesis by (simp add: dirname_def)
qed

lemma reverse_lines_eq:
  "modify_content s ''reverse_lines'' = join [newline] (rev (split newline s))"
  by (simp add: modify_content_def)


section \<open>Properties of the retry loop\<close>








lemma read_first_permanent:
  assumes "0 < mx"
  shows "open_read 0 = Inl (FileNotFoundError m) \<Longrightarrow>
           read_file_with_retries open_read fn mx d =
             (Inl (FileReadError (msg_not_found fn)),
              \<lparr>attempts = 0, last_error = None, opened = 1, printed = [], slept = []\<rparr>)"
    and "open_read 0 = Inl (PermissionError m) \<Longrightarrow>
           read_file_with_retries open_read fn mx d =
             (Inl (FileReadError (msg_permission fn)),
              \<lparr>attempts = 0, last_error = None, opened = 1, printed = [], slept = []\<rparr>)"
    and "open_read 0 = Inl (UnicodeDecodeError m) \<Longrightarrow>
           read_file_with_retries open_read fn mx d =
             (Inl (FileReadError (msg_decode fn)),
              \<lparr>attempts = 0, last_error = None, opened = 1, printed = [], slept = []\<rparr>)"
    and "open_read 0 = Inl (IsADirectoryError m) \<Longrightarrow>
           read_file_with_retries open_read fn mx d =
             (Inl (FileReadError (msg_directory fn)),
              \<lparr>attempts = 0, last_error = None, opened = 1, printed = [], slept = []\<rparr>)"
  unfolding read_file_with_retries_def
  using assms by (subst read_loop.simps, simp)+

lemma time_sleep_None: "time_sleep secs = None \<longleftrightarrow> 0 \<le> secs \<and> secs \<le> 9223372036"
  by (auto simp add: time_sleep_def)

lemma read_file_with_retries_negative_delay:
  "read_file_with_retries always_busy ''a.txt'' 3 (- 1) =
     (Inl (ValueError ''sleep length must be non-negative''),
      \<lparr>attempts = 1, last_error = Some ''busy'', opened = 1,
       printed = [msg_attempt 1 3 ''busy'', msg_retrying (- 1)], slept = []\<rparr>)"
  unfolding read_file_with_retries_def
  by (subst read_loop.simps) (simp add: Let_def always_busy_def time_sleep_def)

lemma read_file_with_retries_huge_delay:
  "read_file_with_retries always_busy ''a.txt'' 3 9223372037 =
     (Inl OverflowError,
      \<lparr>attempts = 1, last_error = Some ''busy'', opened = 1,
       printed = [msg_attempt 1 3 ''busy'', msg_retrying 9223372037], slept = []\<rparr>)"
  unfolding read_file_with_retries_def
  by (subst read_loop.simps) (simp add: Let_def always_busy_def time_sleep_def)

lemma read_loop_classified:
  "attempts st < mx \<Longrightarrow> time_sleep d = None \<Longrightarrow>
   (\<exists>content. fst (read_loop open_read fn mx d st) = Inr (Str content))
   \<or> (\<exists>m. fst (read_loop open_read fn mx d st) = Inl (FileReadError m))"
proof (induction open_read fn mx d st rule: read_loop.induct)
  case (1 open_read filename max_retries retry_delay st)
  show ?case
    using 1
    by (subst (1 2) read_loop.simps) (auto simp add: Let_def split: sum.splits io_exc.splits)
qed


section \<open>The claims\<close>




text \<open>
  C2: when the first call of \<open>open\<close> fails with a permanent cause (file not found,
  permission denied, decoding failure, path is a directory), the function raises
  \<open>FileReadError\<close> with the message of that cause, the four messages being different
  from each other, after one call of \<open>open\<close>, with no attempt counted, nothing
  printed and no sleep.
\<close>

theorem read_file_with_retries_permanent:
  assumes "0 < max_retries"
  shows "(open_read 0 = Inl (FileNotFoundError m) \<longrightarrow>
            read_file_with_retries open_read filename max_retries retry_delay =
              (Inl (FileReadError (msg_not_found filename)),
               \<lparr>attempts = 0, last_error = None, opened = 1, printed = [], slept = []\<rparr>))
       \<and> (open_read 0 = Inl (PermissionError m) \<longrightarrow>
            read_file_with_retries open_read filename max_retries retry_delay =
              (Inl (FileReadError (msg_permission filename)),
               \<lparr>attempts = 0, last_error = None, opened = 1, printed = [], slept = []\<rparr>))
       \<and> (open_read 0 = Inl (UnicodeDecodeError m) \<longrightarrow>
            read_file_with_retries open_read filename max_retries retry_delay =
              (Inl (FileReadError (msg_decode filename)),
               \<lparr>attempts = 0, last_error = None, opened = 1, printed = [], slept = []\<rparr>))
       \<and> (open_read 0 = Inl (IsADirectoryError m) \<longrightarrow>
            read_file_with_retries open_read filename max_retries retry_delay =
              (Inl (FileReadError (msg_directory filename)),
               \<lparr>attempts = 0, last_error = None, opened = 1, printed = [], slept = []\<rparr>))
       \<and> distinct [msg_not_found filename, msg_permission filename, msg_decode filename,
            msg_directory filename]"
proof -
  have "distinct [msg_not_found filename, msg_permission filename, msg_decode filename,
            msg_directory filename]"
    by (simp add: msg_not_found_def msg_permission_def msg_decode_def msg_directory_def
          quoted_def apos_def)
  then show ?thesis
    using read_first_permanent [OF assms, of open_read _ filename retry_delay] by simp
qed

theorem read_file_with_retries_permanent_witness:
  "(0::int) < 3
   \<and> read_file_with_retries (\<lambda>k. Inl (FileNotFoundError ''No such file or directory''))
         ''missing.txt'' 3 1 =
       (Inl (FileReadError (msg_not_found ''missing.txt'')),
        \<lparr>attempts = 0, last_error = None, opened = 1, printed = [], slept = []\<rparr>)"
  using read_file_with_retries_permanent [of 3
          "\<lambda>k. Inl (FileNotFoundError ''No such file or directory'')"
          "''No such file or directory''" "''missing.txt''" 1]
  by simp

text \<open>
  C3: with \<open>max_retries = 0\<close> the body of the loop never runs and the function falls
  through: it returns \<open>None\<close>, which is neither the content nor a \<open>FileReadError\<close>,
  and the file is never opened.
\<close>

theorem read_file_with_retries_zero_attempts:
  "read_file_with_retries (\<lambda>k. Inr ''hello'') ''a.txt'' 0 1 =
     (Inr NoneVal,
      \<lparr>attempts = 0, last_error = None, opened = 0, printed = [], slept = []\<rparr>)"
  unfolding read_file_with_retries_def
  by (subst read_loop.simps) simp

text \<open>
  C4, as the claim states it, fails: the name made of one space is not empty and has no
  forbidden character, and \<open>validate_filename\<close> rejects it, since the emptiness check
  is made on the stripped name.
\<close>

theorem validate_filename_whitespace_only:
  "'' '' \<noteq> [] \<and> set '' '' \<inter> set invalid_chars = {}
   \<and> validate_filename '' '' = (False, [''Error: Filename cannot be empty.''])"
  by (simp add: validate_filename_def strip_def isspace_def invalid_chars_def)

text \<open>
  C4, amended: \<open>validate_filename\<close> returns \<open>False\<close> for every name that contains one
  of the characters \<open>< > : " / \ | ? *\<close>, and the message printed names the first
  character of that list, in the order of the list, that occurs in the name; it returns
  \<open>True\<close>, printing nothing, for every name that is not empty once stripped of
  whitespace and has none of these characters; a name that is empty once stripped is
  rejected with the message about the empty name.
\<close>

theorem validate_filename_correct:
  "(set filename \<inter> set invalid_chars \<noteq> {} \<longrightarrow>
      (\<exists>char before after.
         invalid_chars = before @ char # after \<and> char \<in> set filename
         \<and> set before \<inter> set filename = {}
         \<and> validate_filename filename = (False, [invalid_char_message char])))
   \<and> (strip filename \<noteq> [] \<and> set filename \<inter> set invalid_chars = {} \<longrightarrow>
        validate_filename filename = (True, []))
   \<and> (strip filename = [] \<longrightarrow>
        validate_filename filename = (False, [''Error: Filename cannot be empty.'']))"
proof (intro conjI impI)
  assume bad: "set filename \<inter> set invalid_chars \<noteq> {}"
  then obtain c where c: "c \<in> set filename" "c \<in> set invalid_chars" by blast
  then have "\<not> isspace c" by (simp add: invalid_chars_not_space)
  with c have ne: "strip filename \<noteq> []" by (auto simp add: strip_empty_iff)
  from bad have "first_invalid invalid_chars filename \<noteq> None"
    by (auto simp add: first_invalid_None)
  then obtain char where f: "first_invalid invalid_chars filename = Some char" by blast
  from first_invalid_Some [OF f] obtain before after where
    "invalid_chars = before @ char # after" "char \<in> set filename"
    "set before \<inter> set filename = {}" by blast
  moreover have "validate_filename filename = (False, [invalid_char_message char])"
    using ne f by (simp add: validate_filename_def)
  ultimately show "\<exists>char before after.
         invalid_chars = before @ char # after \<and> char \<in> set filename
         \<and> set before \<inter> set filename = {}
         \<and> validate_filename filename = (False, [invalid_char_message char])"
    by blast
next
  assume "strip filename \<noteq> [] \<and> set filename \<inter> set invalid_chars = {}"
  moreover from this have "first_invalid invalid_chars filename = None"
    by (auto simp add: first_invalid_None)
  ultimately show "validate_filename filename = (True, [])"
    by (simp add: validate_filename_def)
next
  assume "strip filename = []"
  then show "validate_filename filename = (False, [''Error: Filename cannot be empty.''])"
    by (simp add: validate_filename_def)
qed

theorem validate_filename_correct_witness:
  "set ''a?b*'' \<inter> set invalid_chars \<noteq> {}
   \<and> validate_filename ''a?b*'' = (False, [invalid_char_message (CHR ''?'')])
   \<and> strip ''notes.txt'' \<noteq> [] \<and> set ''notes.txt'' \<inter> set invalid_chars = {}
   \<and> validate_filename ''notes.txt'' = (True, [])
   \<and> strip '' '' = []
   \<and> validate_filename '' '' = (False, [''Error: Filename cannot be empty.''])"
  using validate_filename_correct [of "''a?b*''"] validate_filename_correct [of "''notes.txt''"]
    validate_filename_correct [of "'' ''"]
  by (simp add: validate_filename_def strip_def isspace_def invalid_chars_def)

text \<open>
  C5: in read mode \<open>check_file_access\<close> asks, in this order, whether the path exists,
  whether it is a regular file and whether it is readable, and returns \<open>False\<close> with
  a message of its own at the first check that fails, making no further call. In write
  mode an existing path must be writable; for a path that does not exist the directory of
  the path, or \<open>.\<close> when the path names none, must be writable. Otherwise it returns
  \<open>True\<close> with the message of success. The file system is the same afterwards, and none
  of the calls made changes it.
\<close>

theorem check_file_access_spec:
  "(\<not> os_exists os (files w) filename \<longrightarrow>
      check_file_access os filename ''r'' w =
        ((False, msg_not_exist filename), w\<lparr>calls := calls w @ [PathExists filename]\<rparr>))
   \<and> (os_exists os (files w) filename \<and> \<not> os_isfile os (files w) filename \<longrightarrow>
      check_file_access os filename ''r'' w =
        ((False, msg_not_file filename),
         w\<lparr>calls := calls w @ [PathExists filename, PathIsfile filename]\<rparr>))
   \<and> (os_exists os (files w) filename \<and> os_isfile os (files w) filename
        \<and> \<not> os_access os (files w) filename R_OK \<longrightarrow>
      check_file_access os filename ''r'' w =
        ((False, msg_no_read filename),
         w\<lparr>calls := calls w
              @ [PathExists filename, PathIsfile filename, Access filename R_OK]\<rparr>))
   \<and> (os_exists os (files w) filename \<and> os_isfile os (files w) filename
        \<and> os_access os (files w) filename R_OK \<longrightarrow>
      check_file_access os filename ''r'' w =
        ((True, msg_passed),
         w\<lparr>calls := calls w
              @ [PathExists filename, PathIsfile filename, Access filename R_OK]\<rparr>))
   \<and> distinct [msg_not_exist filename, msg_not_file filename, msg_no_read filename]
   \<and> (os_exists os (files w) filename \<longrightarrow>
      check_file_access os filename ''w'' w =
        ((os_access os (files w) filename W_OK,
          if os_access os (files w) filename W_OK then msg_passed else msg_no_write filename),
         w\<lparr>calls := calls w @ [PathExists filename, Access filename W_OK]\<rparr>))
   \<and> (\<not> os_exists os (files w) filename \<longrightarrow>
      (let directory = (if dirname filename = [] then ''.'' else dirname filename) in
       check_file_access os filename ''w'' w =
         ((os_access os (files w) directory W_OK,
           if os_access os (files w) directory W_OK then msg_passed
           else msg_no_write_dir filename),
          w\<lparr>calls := calls w @ [PathExists filename, Access directory W_OK]\<rparr>)))
   \<and> (CHR ''/'' \<notin> set filename \<longrightarrow> dirname filename = [])
   \<and> files (snd (check_file_access os filename mode w)) = files w
   \<and> (\<exists>new. calls (snd (check_file_access os filename mode w)) = calls w @ new
          \<and> \<not> list_ex mutating new)"
proof -
  have r: "\<not> os_exists os (files w) filename \<longrightarrow>
      check_file_access os filename ''r'' w =
        ((False, msg_not_exist filename), w\<lparr>calls := calls w @ [PathExists filename]\<rparr>)"
    by (simp add: check_file_access_def called_def)
  have r2: "os_exists os (files w) filename \<and> \<not> os_isfile os (files w) filename \<longrightarrow>
      check_file_access os filename ''r'' w =
        ((False, msg_not_file filename),
         w\<lparr>calls := calls w @ [PathExists filename, PathIsfile filename]\<rparr>)"
    by (simp add: check_file_access_def called_def)
  have r3: "os_exists os (files w) filename \<and> os_isfile os (files w) filename
        \<and> \<not> os_access os (files w) filename R_OK \<longrightarrow>
      check_file_access os filename ''r'' w =
        ((False, msg_no_read filename),
         w\<lparr>calls := calls w
              @ [PathExists filename, PathIsfile filename, Access filename R_OK]\<rparr>)"
    by (simp add: check_file_access_def called_def)
  have r4: "os_exists os (files w) filename \<and> os_isfile os (files w) filename
        \<and> os_access os (files w) filename R_OK \<longrightarrow>
      check_file_access os filename ''r'' w =
        ((True, msg_passed),
         w\<lparr>calls := calls w
              @ [PathExists filename, PathIsfile filename, Access filename R_OK]\<rparr>)"
    by (simp add: check_file_access_def called_def)
  have d: "distinct [msg_not_exist filename, msg_not_file filename, msg_no_read filename]"
    by (simp add: msg_not_exist_def msg_not_file_def msg_no_read_def quoted_def apos_def)
  have w1: "os_exists os (files w) filename \<longrightarrow>
      check_file_access os filename ''w'' w =
        ((os_access os (files w) filename W_OK,
          if os_access os (files w) filename W_OK then msg_passed else msg_no_write filename),
         w\<lparr>calls := calls w @ [PathExists filename, Access filename W_OK]\<rparr>)"
    by (simp add: check_file_access_def called_def)
  have w2: "\<not> os_exists os (files w) filename \<longrightarrow>
      (let directory = (if dirname filename = [] then ''.'' else dirname filename) in
       check_file_access os filename ''w'' w =
         ((os_access os (files w) directory W_OK,
           if os_access os (files w) directory W_OK then msg_passed
           else msg_no_write_dir filename),
          w\<lparr>calls := calls w @ [PathExists filename, Access directory W_OK]\<rparr>))"
    by (simp add: check_file_access_def called_def Let_def)
  have dn: "CHR ''/'' \<notin> set filename \<longrightarrow> dirname filename = []"
    by (simp add: dirname_no_slash)
  have f: "files (snd (check_file_access os filename mode w)) = files w"
    by (simp add: check_file_access_def called_def Let_def)
  have c: "\<exists>new. calls (snd (check_file_access os filename mode w)) = calls w @ new
          \<and> \<not> list_ex mutating new"
    by (simp add: check_file_access_def called_def Let_def)
  show ?thesis
    using r r2 r3 r4 d w1 w2 dn f c by blast
qed

theorem check_file_access_spec_witness:
  "\<not> os_exists demo_os (files demo_world) ''missing.txt''
   \<and> check_file_access demo_os ''missing.txt'' ''r'' demo_world =
        ((False, msg_not_exist ''missing.txt''),
         demo_world\<lparr>calls := calls demo_world @ [PathExists ''missing.txt'']\<rparr>)
   \<and> os_exists demo_os (files demo_world) ''in.txt''
   \<and> os_isfile demo_os (files demo_world) ''in.txt''
   \<and> os_access demo_os (files demo_world) ''in.txt'' R_OK
   \<and> fst (check_file_access demo_os ''in.txt'' ''r'' demo_world) = (True, msg_passed)
   \<and> fst (check_file_access demo_os ''in.txt'' ''w'' demo_world) = (True, msg_passed)
   \<and> CHR ''/'' \<notin> set ''missing.txt''
   \<and> fst (check_file_access demo_os ''missing.txt'' ''w'' demo_world) = (True, msg_passed)"
  using check_file_access_spec [of demo_os demo_world "''missing.txt''" "''r''"]
    check_file_access_spec [of demo_os demo_world "''in.txt''" "''r''"]
  by (simp add: demo_os_def demo_world_def Let_def)

text \<open>
  C6: \<open>modify_content\<close> is a total function of the content and the kind with no
  failing branch; a kind that is none of the four recognised ones gives the result of
  the uppercase transformation, which is also the result of the call with the default
  argument; and the empty content gives the empty result for every kind.
\<close>

theorem modify_content_total_fallback:
  "(kind \<notin> {''uppercase'', ''lowercase'', ''capitalize_lines'', ''reverse_lines''}
      \<longrightarrow> modify_content content kind = modify_content content ''uppercase'')
   \<and> modify_content_default content = modify_content content ''uppercase''
   \<and> modify_content content ''uppercase'' = (if content = [] then [] else upper content)
   \<and> modify_content [] kind = []"
  by (simp add: modify_content_def modify_content_default_def)

theorem modify_content_total_fallback_witness:
  "''shout'' \<notin> {''uppercase'', ''lowercase'', ''capitalize_lines'', ''reverse_lines''}
   \<and> modify_content ''ab'' ''shout'' = modify_content ''ab'' ''uppercase''
   \<and> modify_content ''ab'' ''shout'' = ''AB''
   \<and> modify_content [] ''shout'' = []"
  using modify_content_total_fallback [of "''shout''" "''ab''"]
  by (simp add: modify_content_def upper_def upper_char_def lowercase_letters_def
      uppercase_letters_def)

text \<open>
  C7: the \<open>reverse_lines\<close> transformation applied twice gives the content back, for
  every string.
\<close>

theorem reverse_lines_twice:
  "modify_content (modify_content s ''reverse_lines'') ''reverse_lines'' = s"
proof -
  let ?ls = "rev (split newline s)"
  have ne: "?ls \<noteq> []" by (simp add: split_not_Nil)
  have nosep: "\<And>l. l \<in> set ?ls \<Longrightarrow> newline \<notin> set l"
    using split_no_sep [of _ newline s] by simp
  have "split newline (join [newline] ?ls) = ?ls"
    using split_join [OF ne nosep] by simp
  then show ?thesis
    by (simp add: reverse_lines_eq join_split)
qed

text \<open>
  C8: in \<open>main\<close>, when the output path exists and the answer to the question about
  overwriting is not \<open>y\<close> or \<open>Y\<close> (or there is no answer), the file system at the end is
  the one at the start and no write is among the calls made. When the input file was
  read and an answer was given, \<open>main\<close> returns after printing that the operation is
  cancelled, having only read the input file and asked whether the output path exists.
\<close>

theorem main_no_overwrite_without_confirmation:
  assumes "stdin w = input_filename # choice # output_filename # rest"
    and "os_exists os (files w) output_filename"
    and "rest = [] \<or> lower (hd rest) \<noteq> ''y''"
  shows "files (snd (main os w)) = files w
     \<and> (\<exists>new. calls (snd (main os w)) = calls w @ new \<and> \<not> list_ex mutating new)
     \<and> (\<forall>content. os_read os (files w) input_filename = Inr content \<and> rest \<noteq> [] \<longrightarrow>
          fst (main os w) = Returned
          \<and> calls (snd (main os w)) =
              calls w @ [OpenRead input_filename, PathExists output_filename]
          \<and> last (stdout (snd (main os w))) = ''Operation cancelled.'')"
  using assms
  by (auto simp add: main_def input_def read_file_def get_modification_choice_def print_def
        called_def Let_def
        split: sum.splits io_exc.splits list.splits)

theorem main_no_overwrite_without_confirmation_witness:
  "stdin (demo_world\<lparr>stdin := [''in.txt'', ''4'', ''in.txt'', ''n'']\<rparr>) =
     ''in.txt'' # ''4'' # ''in.txt'' # [''n'']
   \<and> os_exists demo_os (files (demo_world\<lparr>stdin := [''in.txt'', ''4'', ''in.txt'', ''n'']\<rparr>))
        ''in.txt''
   \<and> lower (hd [''n'']) \<noteq> ''y''
   \<and> files (snd (main demo_os (demo_world\<lparr>stdin := [''in.txt'', ''4'', ''in.txt'', ''n'']\<rparr>)))
       = [(''in.txt'', ''hello'')]
   \<and> calls (snd (main demo_os (demo_world\<lparr>stdin := [''in.txt'', ''4'', ''in.txt'', ''n'']\<rparr>)))
       = [OpenRead ''in.txt'', PathExists ''in.txt'']"
  using main_no_overwrite_without_confirmation [of
          "demo_world\<lparr>stdin := [''in.txt'', ''4'', ''in.txt'', ''n'']\<rparr>"
          "''in.txt''" "''4''" "''in.txt''" "[''n'']" demo_os]
  by (simp add: demo_os_def demo_world_def lower_def lower_char_def uppercase_letters_def
        lowercase_letters_def)

text \<open>
  C9: \<open>write_file\<close> returns \<open>True\<close> exactly when the write raises nothing; the file
  system is then the one the write produced, and nothing is printed. When the write
  raises \<open>PermissionError\<close>, or any other exception, \<open>write_file\<close> prints one line of
  diagnostic, of its own wording in each of the two cases, and returns \<open>False\<close>.
\<close>

theorem write_file_result:
  "(fst (write_file os filename content w) \<longleftrightarrow>
      fst (os_write os (files w) filename content) = None)
   \<and> files (snd (write_file os filename content w)) =
       snd (os_write os (files w) filename content)
   \<and> calls (snd (write_file os filename content w)) =
       calls w @ [OpenWrite filename content]
   \<and> (fst (os_write os (files w) filename content) = None \<longrightarrow>
        stdout (snd (write_file os filename content w)) = stdout w)
   \<and> (\<forall>m. fst (os_write os (files w) filename content) = Some (PermissionError m) \<longrightarrow>
        fst (write_file os filename content w) = False
        \<and> stdout (snd (write_file os filename content w)) =
            stdout w @ [msg_write_permission filename])
   \<and> (\<forall>e. fst (os_write os (files w) filename content) = Some e
          \<and> (\<forall>m. e \<noteq> PermissionError m) \<longrightarrow>
        fst (write_file os filename content w) = False
        \<and> stdout (snd (write_file os filename content w)) =
            stdout w @ [msg_write_unexpected filename (exc_str e)])"
  by (auto simp add: write_file_def print_def called_def Let_def
        split: prod.splits option.splits io_exc.splits)

theorem write_file_result_witness:
  "fst (os_write demo_os (files demo_world) ''out.txt'' ''HELLO'') = None
   \<and> fst (write_file demo_os ''out.txt'' ''HELLO'' demo_world)
   \<and> files (snd (write_file demo_os ''out.txt'' ''HELLO'' demo_world)) =
       [(''out.txt'', ''HELLO''), (''in.txt'', ''hello'')]
   \<and> fst (os_write readonly_os (files demo_world) ''out.txt'' ''HELLO'') =
       Some (PermissionError ''Permission denied'')
   \<and> \<not> fst (write_file readonly_os ''out.txt'' ''HELLO'' demo_world)
   \<and> stdout (snd (write_file readonly_os ''out.txt'' ''HELLO'' demo_world)) =
       [msg_write_permission ''out.txt'']"
  using write_file_result [of demo_os "''out.txt''" "''HELLO''" demo_world]
    write_file_result [of readonly_os "''out.txt''" "''HELLO''" demo_world]
  by (simp add: demo_os_def readonly_os_def demo_world_def)

text \<open>
  C10: for a mode other than \<open>r\<close> and \<open>w\<close>, \<open>check_file_access\<close> returns \<open>True\<close>
  with the message of success for any filename, and the world is as before: no call to
  the operating system is made.
\<close>

theorem check_file_access_unknown_mode:
  "mode \<noteq> ''r'' \<Longrightarrow> mode \<noteq> ''w'' \<Longrightarrow>
   check_file_access os filename mode w = ((True, ''File access check passed.''), w)"
  by (simp add: check_file_access_def msg_passed_def)

theorem check_file_access_unknown_mode_witness:
  "''x'' \<noteq> ''r'' \<and> ''x'' \<noteq> ''w''
   \<and> check_file_access demo_os ''missing.txt'' ''x'' demo_world =
       ((True, ''File access check passed.''), demo_world)"
  using check_file_access_unknown_mode [of "''x''" demo_os "''missing.txt''" demo_world]
  by simp

end
